theory Spec2Isabelle
  imports Main
begin

section \<open>Data model of the media perception action\<close>

text \<open>
  The development follows \<^verbatim>\<open>src/video-perception.tsx\<close>. JavaScript strings are
  modelled as \<^typ>\<open>string\<close>; an optional property is an \<^typ>\<open>'a option\<close>, with
  \<^term>\<open>None\<close> standing for \<^verbatim>\<open>undefined\<close>.
\<close>

text \<open>
  An attachment as the handler reads it: its \<^verbatim>\<open>id\<close>, \<^verbatim>\<open>type\<close> and optional
  \<^verbatim>\<open>url\<close> (the field names carry a prefix because \<open>id\<close> is the identity
  function of HOL).
\<close>

record attachment =
  att_id :: string
  att_type :: string
  att_url :: "string option"

text \<open>A conversation message; \<^verbatim>\<open>message.attachments\<close> may be absent.\<close>

record message =
  attachments :: "attachment list option"

text \<open>The persona \<^verbatim>\<open>agent.agent\<close> handed to the description backend.\<close>

record agent_object =
  name :: string
  bio :: string

text \<open>One question/answer pair \<^verbatim>\<open>{q, a}\<close>; \<^verbatim>\<open>a\<close> is \<^verbatim>\<open>undefined\<close> when the answer
  list has no entry at the question's index.\<close>

record qa_pair =
  qa_q :: string
  qa_a :: "string option"

text \<open>
  \<^verbatim>\<open>e.data.message.args\<close>: the request \<^verbatim>\<open>{id, questions}\<close> of the action's schema,
  and the \<^verbatim>\<open>queries\<close> property that the handler adds.
\<close>

record message_args =
  args_id :: string
  questions :: "string list"
  queries :: "qa_pair list option"

section \<open>Assembling question/answer pairs\<close>

text \<open>\<^verbatim>\<open>answers[index]\<close>: reading an array past its end yields \<^verbatim>\<open>undefined\<close>.\<close>

definition js_index :: "'a list \<Rightarrow> nat \<Rightarrow> 'a option" where
  "js_index xs i = (if i < length xs then Some (xs ! i) else None)"

text \<open>
  \<^verbatim>\<open>makeQa = (questions, answers) => questions.map((q, index) => ({q, a: answers[index]}))\<close>
\<close>

definition makeQa :: "string list \<Rightarrow> string list \<Rightarrow> qa_pair list" where
  "makeQa qs ans =
     map (\<lambda>(q, index). \<lparr>qa_q = q, qa_a = js_index ans index\<rparr>) (zip qs [0..<length qs])"

section \<open>Host primitives, effects and outcomes\<close>

text \<open>A rejected promise carries an error value.\<close>

datatype error = Error string

text \<open>The object that \<^verbatim>\<open>describeJson\<close> returns once validated against
  \<^verbatim>\<open>z.object({answers: z.array(z.string())})\<close>.\<close>

record answers_object =
  answers :: "string list"

text \<open>
  The imports that the file calls but does not define. \<^verbatim>\<open>dedent\<close> is applied as a
  template tag: it receives the raw chunks of the template literal and the interpolated
  values. \<^verbatim>\<open>describeJson(url, prompt, answersFormat, {jwt})\<close> is the vision backend;
  the format argument is the constant schema above, so the model passes the url, the
  prompt and the token, and the call either rejects or yields a validated object.
\<close>

record externals =
  dedent :: "string list \<Rightarrow> string list \<Rightarrow> string"
  describeJson :: "string \<Rightarrow> string \<Rightarrow> string \<Rightarrow> error + answers_object"

text \<open>
  The \<^verbatim>\<open>PendingActionEvent\<close>: \<^verbatim>\<open>e.data.agent.agent\<close>, \<^verbatim>\<open>e.data.message.args\<close> and
  \<^verbatim>\<open>e.commit\<close>. The commit persists the message as it stands when called, so the model
  hands it the current arguments; \<^term>\<open>None\<close> is a resolved promise.
\<close>

record pending_action_event =
  agent :: agent_object
  args :: message_args
  commit :: "message_args \<Rightarrow> error option"

text \<open>The second argument of \<^verbatim>\<open>agent.act\<close>.\<close>

record act_options =
  excludeActions :: "string list"

text \<open>
  What an invocation does to the outside, in order: the backend call (url, prompt,
  token), console output (the logged questions and answers; a warning by its message,
  without the diagnostic object printed after it), the assignment to
  \<^verbatim>\<open>args.queries\<close>, the call of \<^verbatim>\<open>e.commit\<close> and the call of \<^verbatim>\<open>agent.act\<close> with
  its optional arguments.
\<close>

datatype event =
    CallDescribeJson string string string
  | ConsoleLog "string list" "string list"
  | ConsoleWarn string
  | SetQueries "qa_pair list"
  | CallCommit message_args
  | AgentAct "string option" "act_options option"

fun is_describe :: "event \<Rightarrow> bool" where
  "is_describe (CallDescribeJson _ _ _) = True"
| "is_describe _ = False"

fun is_mutation :: "event \<Rightarrow> bool" where
  "is_mutation (SetQueries _) = True"
| "is_mutation _ = False"

fun is_commit :: "event \<Rightarrow> bool" where
  "is_commit (CallCommit _) = True"
| "is_commit _ = False"

fun is_act :: "event \<Rightarrow> bool" where
  "is_act (AgentAct _ _) = True"
| "is_act _ = False"

text \<open>
  The result of running the asynchronous handler to its end: the effects in order, the
  message arguments as left behind, and the error of the rejected promise, if any.
\<close>

record outcome =
  events :: "event list"
  final_args :: message_args
  thrown :: "error option"

section \<open>JSON serialisation\<close>

text \<open>
  \<^verbatim>\<open>JSON.stringify(value, null, 2)\<close> on the values the file serialises: strings,
  \<^verbatim>\<open>undefined\<close>, arrays and plain objects (properties in enumeration order). Strings
  are sequences of bytes here, so a lone surrogate, which JavaScript would escape, has
  no counterpart.
\<close>

datatype json =
    JUndefined
  | JString string
  | JArray "json list"
  | JObject "(string \<times> json) list"

definition hex_digit :: "nat \<Rightarrow> char" where
  "hex_digit n = ''0123456789abcdef'' ! (n mod 16)"

definition escape_char :: "char \<Rightarrow> string" where
  "escape_char c =
     (if c = CHR 0x08 then [CHR 0x5C, CHR ''b'']
      else if c = CHR 0x09 then [CHR 0x5C, CHR ''t'']
      else if c = CHR 0x0A then [CHR 0x5C, CHR ''n'']
      else if c = CHR 0x0C then [CHR 0x5C, CHR ''f'']
      else if c = CHR 0x0D then [CHR 0x5C, CHR ''r'']
      else if c = CHR 0x22 then [CHR 0x5C, CHR 0x22]
      else if c = CHR 0x5C then [CHR 0x5C, CHR 0x5C]
      else if (of_char c :: nat) < 0x20
        then [CHR 0x5C, CHR ''u'', CHR ''0'', CHR ''0'',
              hex_digit (of_char c div 16), hex_digit (of_char c)]
      else [c])"

definition QuoteJSONString :: "string \<Rightarrow> string" where
  "QuoteJSONString s = CHR 0x22 # concat (map escape_char s) @ [CHR 0x22]"

fun join :: "string \<Rightarrow> string list \<Rightarrow> string" where
  "join sep [] = []"
| "join sep [x] = x"
| "join sep (x # y # ys) = x @ sep @ join sep (y # ys)"

text \<open>
  An \<^verbatim>\<open>undefined\<close> value serialises to nothing: it is dropped from an object and
  written \<^verbatim>\<open>null\<close> in an array.
\<close>

fun SerializeJSONProperty :: "string \<Rightarrow> string \<Rightarrow> json \<Rightarrow> string option" where
  "SerializeJSONProperty gap indent JUndefined = None"
| "SerializeJSONProperty gap indent (JString s) = Some (QuoteJSONString s)"
| "SerializeJSONProperty gap indent (JArray xs) =
     (let stepback = indent; indent' = indent @ gap;
          partial = map (\<lambda>x. case SerializeJSONProperty gap indent' x of
                               None \<Rightarrow> ''null'' | Some t \<Rightarrow> t) xs
      in Some (if partial = [] then ''[]''
               else if gap = [] then ''['' @ join '','' partial @ '']''
               else ''['' @ [CHR 0x0A] @ indent' @ join ('','' @ [CHR 0x0A] @ indent') partial
                    @ [CHR 0x0A] @ stepback @ '']''))"
| "SerializeJSONProperty gap indent (JObject kvs) =
     (let stepback = indent; indent' = indent @ gap;
          partial = concat (map (\<lambda>kv. case SerializeJSONProperty gap indent' (snd kv) of
                               None \<Rightarrow> []
                             | Some t \<Rightarrow> [QuoteJSONString (fst kv) @ '':''
                                          @ (if gap = [] then [] else '' '') @ t]) kvs)
      in Some (if partial = [] then ''{}''
               else if gap = [] then ''{'' @ join '','' partial @ ''}''
               else ''{'' @ [CHR 0x0A] @ indent' @ join ('','' @ [CHR 0x0A] @ indent') partial
                    @ [CHR 0x0A] @ stepback @ ''}''))"

text \<open>\<^verbatim>\<open>JSON.stringify(value, null, 2)\<close>; concatenating an \<^verbatim>\<open>undefined\<close> result to a
  string writes the word.\<close>

definition JSON_stringify2 :: "json \<Rightarrow> string" where
  "JSON_stringify2 v =
     (case SerializeJSONProperty ''  '' [] v of None \<Rightarrow> ''undefined'' | Some s \<Rightarrow> s)"

text \<open>The decimal name of an array index.\<close>

fun digits :: "nat \<Rightarrow> string" where
  "digits n = (if n < 10 then [''0123456789'' ! n]
               else digits (n div 10) @ [''0123456789'' ! (n mod 10)])"

declare digits.simps [simp del]

text \<open>The own enumerable properties of an array: its indices in ascending order.\<close>

definition array_entries :: "json list \<Rightarrow> (string \<times> json) list" where
  "array_entries xs = map (\<lambda>(x, index). (digits index, x)) (zip xs [0..<length xs])"

definition qa_json :: "qa_pair \<Rightarrow> json" where
  "qa_json p =
     JObject [(''q'', JString (qa_q p)),
              (''a'', case qa_a p of None \<Rightarrow> JUndefined | Some s \<Rightarrow> JString s)]"

section \<open>The registered perception specs\<close>

text \<open>The prompt handed to the backend: the persona template, then the questions as
  JSON.\<close>

definition image_prompt :: "externals \<Rightarrow> agent_object \<Rightarrow> string list \<Rightarrow> string" where
  "image_prompt ext ag qs =
     dedent ext
       [[CHR 0x5C] @ ''\<newline>        Respond as if you are role playing the following character:\<newline>        Name: '',
        ''\<newline>        Bio: '',
        ''\<newline>\<newline>        Answer the following questions about the image, as JSON array.\<newline>        Each question string in the input array should be answered with a string in the output array.\<newline>      '']
       [name ag, bio ag]
     @ JSON_stringify2 (JObject [(''questions'', JArray (map JString qs))])"

text \<open>
  \<^verbatim>\<open>describe({url, questions, agent}, {jwt})\<close> of the image spec: one awaited call of
  \<^verbatim>\<open>describeJson\<close>, whose rejection is not caught, then the \<^verbatim>\<open>answers\<close> of its result.
\<close>

definition image_describe ::
  "externals \<Rightarrow> string \<Rightarrow> string list \<Rightarrow> agent_object \<Rightarrow> string
     \<Rightarrow> event list \<times> (error + string list)" where
  "image_describe ext url qs ag jwt =
     (let prompt = image_prompt ext ag qs
      in ([CallDescribeJson url prompt jwt],
          case describeJson ext url prompt jwt of
            Inl err \<Rightarrow> Inl err
          | Inr answersObject \<Rightarrow> Inr (answers answersObject)))"

record perception_spec =
  types :: "string list"
  describe :: "externals \<Rightarrow> string \<Rightarrow> string list \<Rightarrow> agent_object \<Rightarrow> string
                 \<Rightarrow> event list \<times> (error + string list)"

definition videoPerceptionSpecs :: "perception_spec list" where
  "videoPerceptionSpecs =
     [\<lparr>types = [''image/jpeg'', ''image/png'', ''image/webp''], describe = image_describe\<rparr>]"

definition supportedVideoPerceptionTypes :: "string list" where
  "supportedVideoPerceptionTypes = concat (map types videoPerceptionSpecs)"

section \<open>The action handler\<close>

text \<open>\<^verbatim>\<open>retry = () => { agent.act(); }\<close>\<close>

definition retry :: "event list" where
  "retry = [AgentAct None None]"

text \<open>
  The handler's loop over the messages: every attachment of every message that has
  attachments, in order. (The loop also fills a weak map from attachment to message
  that is never read.)
\<close>

fun handler_attachments :: "message list \<Rightarrow> attachment list" where
  "handler_attachments [] = []"
| "handler_attachments (m # ms) =
     (case attachments m of None \<Rightarrow> [] | Some xs \<Rightarrow> xs) @ handler_attachments ms"

text \<open>
  The text of the resumption: the template, a newline and the JSON of
  \<^verbatim>\<open>{attachmentId: attachment.id, ...qa}\<close>. Spreading the array adds its indices as
  properties, and an object enumerates index-named properties before the others, so
  the pairs come first.
\<close>

definition resume_message :: "externals \<Rightarrow> attachment \<Rightarrow> qa_pair list \<Rightarrow> string" where
  "resume_message ext att qa =
     dedent ext
       [[CHR 0x5C] @ ''\<newline>                    Your character looked at an attachment and discovered the following:\<newline>                  '']
       []
     @ [CHR 0x0A]
     @ JSON_stringify2
         (JObject (array_entries (map qa_json qa) @ [(''attachmentId'', JString (att_id att))]))"

text \<open>
  The handler, for the messages that \<^verbatim>\<open>getMessages()\<close> returns when it runs and the
  token of the component. A url is truthy when present and not the empty string.
\<close>

definition handler ::
  "externals \<Rightarrow> message list \<Rightarrow> string \<Rightarrow> pending_action_event \<Rightarrow> outcome" where
  "handler ext messages authToken e =
     (let attachmentId = args_id (args e);
          qs = questions (args e);
          atts = handler_attachments messages;
          no_url = \<lparr>events = ConsoleWarn ''warning: attachment has no url'' # retry,
                    final_args = args e, thrown = None\<rparr>
      in case find (\<lambda>attachment. att_id attachment = attachmentId) atts of
           None \<Rightarrow>
             \<lparr>events = ConsoleWarn ''warning: model generated invalid id, retrying'' # retry,
              final_args = args e, thrown = None\<rparr>
         | Some attachment \<Rightarrow>
             (case att_url attachment of
                None \<Rightarrow> no_url
              | Some url \<Rightarrow>
                  if url = [] then no_url
                  else
                    (case find (\<lambda>spec. att_type attachment \<in> set (types spec))
                            videoPerceptionSpecs of
                       None \<Rightarrow>
                         \<lparr>events =
                            ConsoleWarn ''warning: no media perception spec found for type''
                              # retry,
                          final_args = args e, thrown = None\<rparr>
                     | Some mediaPerceptionSpec \<Rightarrow>
                         (case describe mediaPerceptionSpec ext url qs (agent e) authToken of
                            (described, Inl err) \<Rightarrow>
                              \<lparr>events = described, final_args = args e, thrown = Some err\<rparr>
                          | (described, Inr ans) \<Rightarrow>
                              (let qa = makeQa qs ans;
                                   args' = (args e)\<lparr>queries := Some qa\<rparr>;
                                   before = described @
                                     [ConsoleLog qs ans, SetQueries qa, CallCommit args']
                               in case commit e args' of
                                    Some err \<Rightarrow>
                                      \<lparr>events = before, final_args = args',
                                       thrown = Some err\<rparr>
                                  | None \<Rightarrow>
                                      \<lparr>events = before @
                                         [AgentAct (Some (resume_message ext attachment qa))
                                            (Some \<lparr>excludeActions = [''mediaPerception'']\<rparr>)],
                                       final_args = args', thrown = None\<rparr>)))))"

section \<open>Rendering the action\<close>

text \<open>\<^verbatim>\<open>type.replace(/\+[\s\S]*$/, '')\<close>: the match starts at the first \<open>+\<close> and runs
  to the end of the string, so what remains is the text before the first \<open>+\<close>.\<close>

definition typeClean :: "string \<Rightarrow> string" where
  "typeClean t = takeWhile (\<lambda>c. c \<noteq> CHR ''+'') t"

text \<open>
  The rendered \<^verbatim>\<open>Action\<close> element. The description is a fixed text around
  \<^verbatim>\<open>JSON.stringify(attachments, null, 2)\<close>; the declaration of the attachment type is
  not part of the file, so \<open>media\<close> keeps the serialised list itself. The schema is
  the type of the request. The handler reads the messages again when it runs.
\<close>

record action =
  action_type :: string
  media :: "attachment list"
  examples :: "(string \<times> string list) list"
  action_handler :: "message list \<Rightarrow> pending_action_event \<Rightarrow> outcome"

datatype rendered = RenderUndefined | RenderFalse | RenderAction action

text \<open>
  The component, given the imported \<^verbatim>\<open>collectAttachments\<close>, the messages of the
  conversation (\<^term>\<open>None\<close> without a conversation), the token and the memoised random
  id of the examples.
\<close>

definition VideoPerceptionInner ::
  "externals \<Rightarrow> (message list \<Rightarrow> attachment list) \<Rightarrow> message list option \<Rightarrow> string \<Rightarrow> string
     \<Rightarrow> rendered" where
  "VideoPerceptionInner ext collectAttachments conversation authToken randomId =
     (case conversation of
        None \<Rightarrow> RenderUndefined
      | Some messages \<Rightarrow>
          (let atts = filter
                 (\<lambda>attachment. typeClean (att_type attachment)
                                  \<in> set supportedVideoPerceptionTypes)
                 (collectAttachments messages)
           in if length atts > 0
              then RenderAction
                \<lparr>action_type = ''mediaPerception'',
                 media = atts,
                 examples =
                   [(randomId, [''Describe the image.'']),
                    (randomId, [''What are the dimensions of the subject, in meters?'']),
                    (randomId, [''Describe the people in the image.'',
                                ''What'' @ [CHR 0x27] @ ''s the mood/aesthetic?''])],
                 action_handler = (\<lambda>msgs. handler ext msgs authToken)\<rparr>
              else RenderFalse))"

definition VideoPerception ::
  "externals \<Rightarrow> (message list \<Rightarrow> attachment list) \<Rightarrow> message list option \<Rightarrow> string \<Rightarrow> string
     \<Rightarrow> rendered" where
  "VideoPerception = VideoPerceptionInner"

section \<open>The scenario of the specification\<close>

text \<open>
  One message with the attachment \<^verbatim>\<open>{id: "a1", type: "image/png", url: "http://x/1.png"}\<close>,
  a backend with a fixed reply, and a request with the question
  \<^verbatim>\<open>"Describe the image."\<close> whose commit has a fixed result.
\<close>

definition scenario_attachment :: attachment where
  "scenario_attachment =
     \<lparr>att_id = ''a1'', att_type = ''image/png'', att_url = Some ''http://x/1.png''\<rparr>"

definition scenario_messages :: "message list" where
  "scenario_messages = [\<lparr>attachments = Some [scenario_attachment]\<rparr>]"

definition scenario_externals :: "(error + answers_object) \<Rightarrow> externals" where
  "scenario_externals reply =
     \<lparr>dedent = (\<lambda>chunks vals. concat chunks), describeJson = (\<lambda>url prompt jwt. reply)\<rparr>"

definition scenario_event :: "string \<Rightarrow> error option \<Rightarrow> pending_action_event" where
  "scenario_event attachmentId committed =
     \<lparr>agent = \<lparr>name = ''Ann'', bio = ''A painter.''\<rparr>,
      args = \<lparr>args_id = attachmentId, questions = [''Describe the image.''], queries = None\<rparr>,
      commit = (\<lambda>a. committed)\<rparr>"

section \<open>Properties of the assembly\<close>

lemma length_makeQa: "length (makeQa qs ans) = length qs"
  by (simp add: makeQa_def)

lemma nth_makeQa:
  "i < length qs \<Longrightarrow> makeQa qs ans ! i = \<lparr>qa_q = qs ! i, qa_a = js_index ans i\<rparr>"
  by (simp add: makeQa_def)

lemma makeQa_take: "makeQa qs (take (length qs) ans) = makeQa qs ans"
  by (rule nth_equalityI) (simp_all add: length_makeQa nth_makeQa js_index_def)

text \<open>
  Claim C5. For question and answer lists of equal length, \<open>makeQa\<close> returns the pairs
  in the order of the questions: the i-th pair holds the i-th question and the i-th
  answer. In particular the lists \<open>[Q1, Q2]\<close> and \<open>[A1, A2]\<close> give
  \<open>[{q: Q1, a: A1}, {q: Q2, a: A2}]\<close>.
\<close>

theorem makeQa_equal_length:
  "(length qs = length ans \<longrightarrow>
      length (makeQa qs ans) = length qs \<and>
      (\<forall>i < length qs. makeQa qs ans ! i = \<lparr>qa_q = qs ! i, qa_a = Some (ans ! i)\<rparr>)) \<and>
   makeQa [''Q1'', ''Q2''] [''A1'', ''A2''] =
     [\<lparr>qa_q = ''Q1'', qa_a = Some ''A1''\<rparr>, \<lparr>qa_q = ''Q2'', qa_a = Some ''A2''\<rparr>]"
proof (intro conjI impI allI)
  show "makeQa [''Q1'', ''Q2''] [''A1'', ''A2''] =
     [\<lparr>qa_q = ''Q1'', qa_a = Some ''A1''\<rparr>, \<lparr>qa_q = ''Q2'', qa_a = Some ''A2''\<rparr>]"
    by (simp add: makeQa_def js_index_def upt_rec)
qed (simp_all add: length_makeQa nth_makeQa js_index_def)

theorem makeQa_equal_length_witness:
  "length [''Q1'', ''Q2'', ''Q3''] = length [''A1'', ''A2'', ''A3''] \<and>
   length (makeQa [''Q1'', ''Q2'', ''Q3''] [''A1'', ''A2'', ''A3'']) = 3 \<and>
   makeQa [''Q1'', ''Q2'', ''Q3''] [''A1'', ''A2'', ''A3''] ! 2 =
     \<lparr>qa_q = ''Q3'', qa_a = Some ''A3''\<rparr>"
  using makeQa_equal_length [of "[''Q1'', ''Q2'', ''Q3'']" "[''A1'', ''A2'', ''A3'']"]
  by simp

text \<open>
  Claim C9. \<open>makeQa\<close> is a total function of any two lists, whatever their lengths: it
  returns exactly one pair per question, the i-th pair carrying the i-th question; a
  position at or beyond the end of the answers carries no answer (\<open>undefined\<close>), a
  position within the answers carries that answer, and answers beyond the number of
  questions do not influence the result.
\<close>

theorem makeQa_any_lengths:
  "length (makeQa qs ans) = length qs \<and>
   (\<forall>i < length qs. qa_q (makeQa qs ans ! i) = qs ! i) \<and>
   (\<forall>i < length qs. length ans \<le> i \<longrightarrow> qa_a (makeQa qs ans ! i) = None) \<and>
   (\<forall>i < length qs. i < length ans \<longrightarrow> qa_a (makeQa qs ans ! i) = Some (ans ! i)) \<and>
   makeQa qs (take (length qs) ans) = makeQa qs ans"
  by (simp add: length_makeQa nth_makeQa js_index_def makeQa_take)

theorem makeQa_any_lengths_witness:
  "makeQa [''Q1'', ''Q2'', ''Q3''] [''A1''] =
     [\<lparr>qa_q = ''Q1'', qa_a = Some ''A1''\<rparr>, \<lparr>qa_q = ''Q2'', qa_a = None\<rparr>,
      \<lparr>qa_q = ''Q3'', qa_a = None\<rparr>] \<and>
   makeQa [''Q1''] [''A1'', ''A2''] = [\<lparr>qa_q = ''Q1'', qa_a = Some ''A1''\<rparr>] \<and>
   length (makeQa [''Q1'', ''Q2'', ''Q3''] [''A1'']) = 3 \<and>
   qa_q (makeQa [''Q1'', ''Q2'', ''Q3''] [''A1''] ! 2) = ''Q3'' \<and>
   qa_a (makeQa [''Q1'', ''Q2'', ''Q3''] [''A1''] ! 2) = None \<and>
   qa_a (makeQa [''Q1'', ''Q2'', ''Q3''] [''A1''] ! 0) = Some ''A1''"
  using makeQa_any_lengths [of "[''Q1'', ''Q2'', ''Q3'']" "[''A1'']"]
  by (simp add: makeQa_def js_index_def upt_rec)

section \<open>Routing and the branches of the handler\<close>

lemma supported_types:
  "supportedVideoPerceptionTypes = [''image/jpeg'', ''image/png'', ''image/webp'']"
  by (simp add: videoPerceptionSpecs_def supportedVideoPerceptionTypes_def)

lemma route_found:
  "t \<in> set supportedVideoPerceptionTypes \<Longrightarrow>
   find (\<lambda>spec. t \<in> set (types spec)) videoPerceptionSpecs =
     Some \<lparr>types = [''image/jpeg'', ''image/png'', ''image/webp''], describe = image_describe\<rparr>"
  by (simp add: videoPerceptionSpecs_def supportedVideoPerceptionTypes_def)

lemma route_none:
  "t \<notin> set supportedVideoPerceptionTypes \<Longrightarrow>
   find (\<lambda>spec. t \<in> set (types spec)) videoPerceptionSpecs = None"
  by (simp add: videoPerceptionSpecs_def supportedVideoPerceptionTypes_def)

lemma route_some_describe:
  "find (\<lambda>spec. t \<in> set (types spec)) videoPerceptionSpecs = Some spec \<Longrightarrow>
   describe spec = image_describe"
  by (auto simp add: videoPerceptionSpecs_def split: if_splits)

lemma typeClean_suffix:
  "CHR ''+'' \<notin> set base \<Longrightarrow> typeClean (base @ CHR ''+'' # suffix) = base"
  by (simp add: typeClean_def takeWhile_append)

lemma supported_no_plus: "t \<in> set supportedVideoPerceptionTypes \<Longrightarrow> CHR ''+'' \<notin> set t"
  by (auto simp add: supported_types)

lemma suffixed_not_supported:
  "base @ CHR ''+'' # suffix \<notin> set supportedVideoPerceptionTypes"
proof
  assume "base @ CHR ''+'' # suffix \<in> set supportedVideoPerceptionTypes"
  then have "CHR ''+'' \<notin> set (base @ CHR ''+'' # suffix)"
    by (rule supported_no_plus)
  then show False by simp
qed

lemma handler_not_found:
  assumes "find (\<lambda>a. att_id a = args_id (args e)) (handler_attachments msgs) = None"
  shows "handler ext msgs tok e =
           \<lparr>events = ConsoleWarn ''warning: model generated invalid id, retrying'' # retry,
            final_args = args e, thrown = None\<rparr>"
  using assms by (simp add: handler_def Let_def)

lemma handler_no_url:
  assumes "find (\<lambda>a. att_id a = args_id (args e)) (handler_attachments msgs) = Some att"
    and "att_url att = None \<or> att_url att = Some []"
  shows "handler ext msgs tok e =
           \<lparr>events = ConsoleWarn ''warning: attachment has no url'' # retry,
            final_args = args e, thrown = None\<rparr>"
  using assms by (auto simp add: handler_def Let_def)

lemma handler_no_spec:
  assumes "find (\<lambda>a. att_id a = args_id (args e)) (handler_attachments msgs) = Some att"
    and "att_url att = Some url" and "url \<noteq> []"
    and "find (\<lambda>spec. att_type att \<in> set (types spec)) videoPerceptionSpecs = None"
  shows "handler ext msgs tok e =
           \<lparr>events = ConsoleWarn ''warning: no media perception spec found for type'' # retry,
            final_args = args e, thrown = None\<rparr>"
  using assms by (simp add: handler_def Let_def)

lemma handler_describe_rejects:
  assumes "find (\<lambda>a. att_id a = args_id (args e)) (handler_attachments msgs) = Some att"
    and "att_url att = Some url" and "url \<noteq> []"
    and "find (\<lambda>spec. att_type att \<in> set (types spec)) videoPerceptionSpecs = Some spec"
    and "describe spec ext url (questions (args e)) (agent e) tok = (described, Inl err)"
  shows "handler ext msgs tok e =
           \<lparr>events = described, final_args = args e, thrown = Some err\<rparr>"
  using assms by (simp add: handler_def Let_def)

lemma handler_commit_rejects:
  assumes "find (\<lambda>a. att_id a = args_id (args e)) (handler_attachments msgs) = Some att"
    and "att_url att = Some url" and "url \<noteq> []"
    and "find (\<lambda>spec. att_type att \<in> set (types spec)) videoPerceptionSpecs = Some spec"
    and "describe spec ext url (questions (args e)) (agent e) tok = (described, Inr ans)"
    and "commit e ((args e)\<lparr>queries := Some (makeQa (questions (args e)) ans)\<rparr>) = Some err"
  shows "handler ext msgs tok e =
           \<lparr>events = described @
              [ConsoleLog (questions (args e)) ans,
               SetQueries (makeQa (questions (args e)) ans),
               CallCommit ((args e)\<lparr>queries := Some (makeQa (questions (args e)) ans)\<rparr>)],
            final_args = (args e)\<lparr>queries := Some (makeQa (questions (args e)) ans)\<rparr>,
            thrown = Some err\<rparr>"
  using assms by (simp add: handler_def Let_def)

lemma handler_resumes:
  assumes "find (\<lambda>a. att_id a = args_id (args e)) (handler_attachments msgs) = Some att"
    and "att_url att = Some url" and "url \<noteq> []"
    and "find (\<lambda>spec. att_type att \<in> set (types spec)) videoPerceptionSpecs = Some spec"
    and "describe spec ext url (questions (args e)) (agent e) tok = (described, Inr ans)"
    and "commit e ((args e)\<lparr>queries := Some (makeQa (questions (args e)) ans)\<rparr>) = None"
  shows "handler ext msgs tok e =
           \<lparr>events = described @
              [ConsoleLog (questions (args e)) ans,
               SetQueries (makeQa (questions (args e)) ans),
               CallCommit ((args e)\<lparr>queries := Some (makeQa (questions (args e)) ans)\<rparr>),
               AgentAct (Some (resume_message ext att (makeQa (questions (args e)) ans)))
                 (Some \<lparr>excludeActions = [''mediaPerception'']\<rparr>)],
            final_args = (args e)\<lparr>queries := Some (makeQa (questions (args e)) ans)\<rparr>,
            thrown = None\<rparr>"
  using assms by (simp add: handler_def Let_def)

lemma image_describe_events:
  "image_describe ext url qs ag tok = (described, res) \<Longrightarrow>
   described = [CallDescribeJson url (image_prompt ext ag qs) tok]"
  by (auto simp add: image_describe_def Let_def)

lemma scenario_resolves:
  "find (\<lambda>a. att_id a = args_id (args (scenario_event ''a1'' c)))
     (handler_attachments scenario_messages) = Some scenario_attachment"
  by (simp add: scenario_event_def scenario_messages_def scenario_attachment_def)

lemma scenario_missing:
  "find (\<lambda>a. att_id a = args_id (args (scenario_event ''missing'' c)))
     (handler_attachments scenario_messages) = None"
  by (simp add: scenario_event_def scenario_messages_def scenario_attachment_def)

lemma scenario_describe:
  "image_describe (scenario_externals reply) url qs ag tok =
   ([CallDescribeJson url (image_prompt (scenario_externals reply) ag qs) tok],
    case reply of Inl err \<Rightarrow> Inl err | Inr obj \<Rightarrow> Inr (answers obj))"
  by (simp add: image_describe_def scenario_externals_def)

lemma scenario_route:
  "find (\<lambda>spec. att_type scenario_attachment \<in> set (types spec)) videoPerceptionSpecs =
     Some \<lparr>types = [''image/jpeg'', ''image/png'', ''image/webp''], describe = image_describe\<rparr>"
  by (simp add: scenario_attachment_def videoPerceptionSpecs_def)

lemma scenario_url:
  "att_url scenario_attachment = Some ''http://x/1.png''" "''http://x/1.png'' \<noteq> []"
  by (simp_all add: scenario_attachment_def)

lemma rendered_action:
  assumes "VideoPerceptionInner ext ca conv tok rid = RenderAction act"
  shows "action_type act = ''mediaPerception''"
    and "action_handler act = (\<lambda>msgs. handler ext msgs tok)"
    and "\<exists>msgs. conv = Some msgs \<and>
           media act = filter (\<lambda>a. typeClean (att_type a) \<in> set supportedVideoPerceptionTypes)
                         (ca msgs)"
  using assms
  by (auto simp add: VideoPerceptionInner_def Let_def split: option.splits if_splits)

lemma render_lists:
  assumes "a \<in> set (ca msgs)"
    and "typeClean (att_type a) \<in> set supportedVideoPerceptionTypes"
  shows "\<exists>act. VideoPerceptionInner ext ca (Some msgs) tok rid = RenderAction act \<and>
           a \<in> set (media act) \<and>
           media act = filter (\<lambda>x. typeClean (att_type x) \<in> set supportedVideoPerceptionTypes)
                         (ca msgs)"
proof -
  let ?atts = "filter (\<lambda>x. typeClean (att_type x) \<in> set supportedVideoPerceptionTypes) (ca msgs)"
  from assms have mem: "a \<in> set ?atts" by simp
  then have "length ?atts > 0" by (rule length_pos_if_in_set)
  with mem show ?thesis
    by (simp add: VideoPerceptionInner_def Let_def)
qed

section \<open>Malformed requests\<close>

text \<open>
  Claim C1. When the requested id equals the id of no attachment of the conversation,
  or the attachment it resolves to (the first with that id) has no url (absent or
  empty), or the type of that attachment is in no registered spec, the handler calls
  \<open>agent.act()\<close> without arguments exactly once and makes no other \<open>act\<close> call, no
  backend call, no commit and no assignment to the message arguments, which stay as
  they were; nothing is thrown.
\<close>

theorem malformed_request_retries_once:
  assumes "(\<forall>a \<in> set (handler_attachments msgs). att_id a \<noteq> args_id (args e)) \<or>
           (\<exists>att. find (\<lambda>a. att_id a = args_id (args e)) (handler_attachments msgs) = Some att \<and>
                  (att_url att = None \<or> att_url att = Some [] \<or>
                   find (\<lambda>spec. att_type att \<in> set (types spec)) videoPerceptionSpecs = None))"
  shows "filter is_act (events (handler ext msgs tok e)) = [AgentAct None None] \<and>
         filter is_describe (events (handler ext msgs tok e)) = [] \<and>
         filter is_commit (events (handler ext msgs tok e)) = [] \<and>
         filter is_mutation (events (handler ext msgs tok e)) = [] \<and>
         final_args (handler ext msgs tok e) = args e \<and>
         thrown (handler ext msgs tok e) = None"
proof -
  let ?found = "find (\<lambda>a. att_id a = args_id (args e)) (handler_attachments msgs)"
  show ?thesis
  proof (cases ?found)
    case None
    then show ?thesis
      by (simp add: handler_not_found retry_def)
  next
    case (Some att)
    then have "\<exists>a \<in> set (handler_attachments msgs). att_id a = args_id (args e)"
      by (auto simp add: find_Some_iff)
    with assms Some
    have bad: "att_url att = None \<or> att_url att = Some [] \<or>
               find (\<lambda>spec. att_type att \<in> set (types spec)) videoPerceptionSpecs = None"
      by auto
    show ?thesis
    proof (cases "att_url att = None \<or> att_url att = Some []")
      case True
      with Some show ?thesis
        by (simp add: handler_no_url retry_def)
    next
      case False
      then obtain url where url: "att_url att = Some url" "url \<noteq> []"
        by auto
      from bad False
      have "find (\<lambda>spec. att_type att \<in> set (types spec)) videoPerceptionSpecs = None"
        by auto
      with Some url show ?thesis
        by (simp add: handler_no_spec retry_def)
    qed
  qed
qed

theorem malformed_request_retries_once_witness:
  "filter is_act (events (handler (scenario_externals (Inr \<lparr>answers = [''A cat on a mat.'']\<rparr>))
      scenario_messages ''jwt'' (scenario_event ''missing'' None))) = [AgentAct None None] \<and>
   filter is_describe (events (handler (scenario_externals (Inr \<lparr>answers = [''A cat on a mat.'']\<rparr>))
      scenario_messages ''jwt'' (scenario_event ''missing'' None))) = [] \<and>
   filter is_commit (events (handler (scenario_externals (Inr \<lparr>answers = [''A cat on a mat.'']\<rparr>))
      scenario_messages ''jwt'' (scenario_event ''missing'' None))) = [] \<and>
   filter is_mutation (events (handler (scenario_externals (Inr \<lparr>answers = [''A cat on a mat.'']\<rparr>))
      scenario_messages ''jwt'' (scenario_event ''missing'' None))) = [] \<and>
   final_args (handler (scenario_externals (Inr \<lparr>answers = [''A cat on a mat.'']\<rparr>))
      scenario_messages ''jwt'' (scenario_event ''missing'' None))
     = \<lparr>args_id = ''missing'', questions = [''Describe the image.''], queries = None\<rparr> \<and>
   filter is_act (events (handler (scenario_externals (Inr \<lparr>answers = [''A cat on a mat.'']\<rparr>))
      [\<lparr>attachments = None\<rparr>, \<lparr>attachments = Some [scenario_attachment\<lparr>att_url := None\<rparr>]\<rparr>]
      ''jwt'' (scenario_event ''a1'' None))) = [AgentAct None None] \<and>
   filter is_act (events (handler (scenario_externals (Inr \<lparr>answers = [''A cat on a mat.'']\<rparr>))
      [\<lparr>attachments = Some [scenario_attachment\<lparr>att_type := ''video/mp4''\<rparr>]\<rparr>]
      ''jwt'' (scenario_event ''a1'' None))) = [AgentAct None None]"
proof -
  let ?ext = "scenario_externals (Inr \<lparr>answers = [''A cat on a mat.'']\<rparr>)"
  have missing:
    "\<forall>a \<in> set (handler_attachments scenario_messages).
       att_id a \<noteq> args_id (args (scenario_event ''missing'' None))"
    by (simp add: scenario_messages_def scenario_attachment_def scenario_event_def)
  have no_url:
    "\<exists>att. find (\<lambda>a. att_id a = args_id (args (scenario_event ''a1'' None)))
        (handler_attachments
           [\<lparr>attachments = None\<rparr>, \<lparr>attachments = Some [scenario_attachment\<lparr>att_url := None\<rparr>]\<rparr>])
        = Some att \<and>
      (att_url att = None \<or> att_url att = Some [] \<or>
       find (\<lambda>spec. att_type att \<in> set (types spec)) videoPerceptionSpecs = None)"
    by (simp add: scenario_attachment_def scenario_event_def)
  have no_spec:
    "\<exists>att. find (\<lambda>a. att_id a = args_id (args (scenario_event ''a1'' None)))
        (handler_attachments
           [\<lparr>attachments = Some [scenario_attachment\<lparr>att_type := ''video/mp4''\<rparr>]\<rparr>])
        = Some att \<and>
      (att_url att = None \<or> att_url att = Some [] \<or>
       find (\<lambda>spec. att_type att \<in> set (types spec)) videoPerceptionSpecs = None)"
    by (simp add: scenario_attachment_def scenario_event_def videoPerceptionSpecs_def)
  from malformed_request_retries_once [OF disjI1, OF missing, of ?ext "''jwt''"]
       malformed_request_retries_once [OF disjI2, OF no_url, of ?ext "''jwt''"]
       malformed_request_retries_once [OF disjI2, OF no_spec, of ?ext "''jwt''"]
  show ?thesis
    by (simp add: scenario_event_def)
qed

text \<open>
  Claim C8. \<open>retry()\<close> is one call of \<open>agent.act\<close> with neither a context message
  nor an options argument, and each of the three recovery branches (unknown id, no
  url, no spec for the type) consists of its warning followed by exactly that call.
\<close>

theorem retry_acts_without_arguments:
  "retry = [AgentAct None None] \<and>
   (find (\<lambda>a. att_id a = args_id (args e)) (handler_attachments msgs) = None \<longrightarrow>
      events (handler ext msgs tok e) =
        [ConsoleWarn ''warning: model generated invalid id, retrying'', AgentAct None None]) \<and>
   (\<forall>att. find (\<lambda>a. att_id a = args_id (args e)) (handler_attachments msgs) = Some att \<and>
          (att_url att = None \<or> att_url att = Some []) \<longrightarrow>
      events (handler ext msgs tok e) =
        [ConsoleWarn ''warning: attachment has no url'', AgentAct None None]) \<and>
   (\<forall>att url. find (\<lambda>a. att_id a = args_id (args e)) (handler_attachments msgs) = Some att \<and>
          att_url att = Some url \<and> url \<noteq> [] \<and>
          find (\<lambda>spec. att_type att \<in> set (types spec)) videoPerceptionSpecs = None \<longrightarrow>
      events (handler ext msgs tok e) =
        [ConsoleWarn ''warning: no media perception spec found for type'', AgentAct None None])"
proof (intro conjI impI allI)
  show "retry = [AgentAct None None]"
    by (simp add: retry_def)
next
  assume "find (\<lambda>a. att_id a = args_id (args e)) (handler_attachments msgs) = None"
  then show "events (handler ext msgs tok e) =
      [ConsoleWarn ''warning: model generated invalid id, retrying'', AgentAct None None]"
    by (simp add: handler_not_found retry_def)
next
  fix att
  assume "find (\<lambda>a. att_id a = args_id (args e)) (handler_attachments msgs) = Some att \<and>
          (att_url att = None \<or> att_url att = Some [])"
  then have found: "find (\<lambda>a. att_id a = args_id (args e)) (handler_attachments msgs) = Some att"
    and falsy: "att_url att = None \<or> att_url att = Some []"
    by blast+
  from handler_no_url [OF found falsy, of ext tok] show "events (handler ext msgs tok e) =
      [ConsoleWarn ''warning: attachment has no url'', AgentAct None None]"
    by (simp add: retry_def)
next
  fix att url
  assume "find (\<lambda>a. att_id a = args_id (args e)) (handler_attachments msgs) = Some att \<and>
          att_url att = Some url \<and> url \<noteq> [] \<and>
          find (\<lambda>spec. att_type att \<in> set (types spec)) videoPerceptionSpecs = None"
  then have found: "find (\<lambda>a. att_id a = args_id (args e)) (handler_attachments msgs) = Some att"
    and url: "att_url att = Some url" "url \<noteq> []"
    and unrouted: "find (\<lambda>spec. att_type att \<in> set (types spec)) videoPerceptionSpecs = None"
    by blast+
  from handler_no_spec [OF found url unrouted, of ext tok] show "events (handler ext msgs tok e) =
      [ConsoleWarn ''warning: no media perception spec found for type'', AgentAct None None]"
    by (simp add: retry_def)
qed

theorem retry_acts_without_arguments_witness:
  "events (handler (scenario_externals (Inl (Error ''down''))) scenario_messages ''jwt''
      (scenario_event ''missing'' None)) =
     [ConsoleWarn ''warning: model generated invalid id, retrying'', AgentAct None None] \<and>
   events (handler (scenario_externals (Inl (Error ''down'')))
      [\<lparr>attachments = Some [scenario_attachment\<lparr>att_url := Some []\<rparr>]\<rparr>] ''jwt''
      (scenario_event ''a1'' None)) =
     [ConsoleWarn ''warning: attachment has no url'', AgentAct None None] \<and>
   events (handler (scenario_externals (Inl (Error ''down'')))
      [\<lparr>attachments = Some [scenario_attachment\<lparr>att_type := ''image/gif''\<rparr>]\<rparr>] ''jwt''
      (scenario_event ''a1'' None)) =
     [ConsoleWarn ''warning: no media perception spec found for type'', AgentAct None None]"
proof -
  let ?ext = "scenario_externals (Inl (Error ''down''))"
  let ?e = "scenario_event ''a1'' None"
  let ?m2 = "[\<lparr>attachments = Some [scenario_attachment\<lparr>att_url := Some []\<rparr>]\<rparr>]"
  let ?m3 = "[\<lparr>attachments = Some [scenario_attachment\<lparr>att_type := ''image/gif''\<rparr>]\<rparr>]"
  have h2: "find (\<lambda>a. att_id a = args_id (args ?e)) (handler_attachments ?m2)
              = Some (scenario_attachment\<lparr>att_url := Some []\<rparr>) \<and>
            (att_url (scenario_attachment\<lparr>att_url := Some []\<rparr>) = None \<or>
             att_url (scenario_attachment\<lparr>att_url := Some []\<rparr>) = Some [])"
    by (simp add: scenario_attachment_def scenario_event_def)
  have h3: "find (\<lambda>a. att_id a = args_id (args ?e)) (handler_attachments ?m3)
              = Some (scenario_attachment\<lparr>att_type := ''image/gif''\<rparr>) \<and>
            att_url (scenario_attachment\<lparr>att_type := ''image/gif''\<rparr>) = Some ''http://x/1.png'' \<and>
            ''http://x/1.png'' \<noteq> [] \<and>
            find (\<lambda>spec. att_type (scenario_attachment\<lparr>att_type := ''image/gif''\<rparr>)
                    \<in> set (types spec)) videoPerceptionSpecs = None"
    by (simp add: scenario_attachment_def scenario_event_def videoPerceptionSpecs_def)
  from retry_acts_without_arguments
         [of "scenario_event ''missing'' None" scenario_messages ?ext "''jwt''"]
       scenario_missing [of None]
  have c1: "events (handler ?ext scenario_messages ''jwt'' (scenario_event ''missing'' None)) =
     [ConsoleWarn ''warning: model generated invalid id, retrying'', AgentAct None None]"
    by blast
  from retry_acts_without_arguments [of ?e ?m2 ?ext "''jwt''"] h2
  have c2: "events (handler ?ext ?m2 ''jwt'' ?e) =
     [ConsoleWarn ''warning: attachment has no url'', AgentAct None None]"
    by blast
  from retry_acts_without_arguments [of ?e ?m3 ?ext "''jwt''"] h3
  have c3: "events (handler ?ext ?m3 ''jwt'' ?e) =
     [ConsoleWarn ''warning: no media perception spec found for type'', AgentAct None None]"
    by blast
  from c1 c2 c3 show ?thesis by simp
qed

section \<open>Successful invocations\<close>

text \<open>
  Claim C2. In a successful invocation (the id resolves to an attachment with a url,
  a spec is registered for its type and the backend returns answers) the handler calls
  the backend, logs, assigns the pairs, calls commit and, once commit has resolved,
  calls \<open>agent.act\<close> as its last step. When commit rejects, its error is thrown and
  \<open>agent.act\<close> is never called. Hence every \<open>agent.act\<close> call of such an invocation
  comes after a commit call that resolved.
\<close>

theorem commit_completes_before_resume:
  assumes "find (\<lambda>a. att_id a = args_id (args e)) (handler_attachments msgs) = Some att"
    and "att_url att = Some url" and "url \<noteq> []"
    and "find (\<lambda>spec. att_type att \<in> set (types spec)) videoPerceptionSpecs = Some spec"
    and "describe spec ext url (questions (args e)) (agent e) tok = (described, Inr ans)"
  shows "(commit e ((args e)\<lparr>queries := Some (makeQa (questions (args e)) ans)\<rparr>) = None \<longrightarrow>
            events (handler ext msgs tok e) =
              [CallDescribeJson url (image_prompt ext (agent e) (questions (args e))) tok,
               ConsoleLog (questions (args e)) ans,
               SetQueries (makeQa (questions (args e)) ans),
               CallCommit ((args e)\<lparr>queries := Some (makeQa (questions (args e)) ans)\<rparr>),
               AgentAct (Some (resume_message ext att (makeQa (questions (args e)) ans)))
                 (Some \<lparr>excludeActions = [''mediaPerception'']\<rparr>)] \<and>
            thrown (handler ext msgs tok e) = None) \<and>
         (\<forall>err. commit e ((args e)\<lparr>queries := Some (makeQa (questions (args e)) ans)\<rparr>) = Some err \<longrightarrow>
            filter is_act (events (handler ext msgs tok e)) = [] \<and>
            thrown (handler ext msgs tok e) = Some err) \<and>
         (\<forall>i < length (events (handler ext msgs tok e)).
            is_act (events (handler ext msgs tok e) ! i) \<longrightarrow>
              commit e ((args e)\<lparr>queries := Some (makeQa (questions (args e)) ans)\<rparr>) = None \<and>
              (\<exists>j < i. events (handler ext msgs tok e) ! j =
                 CallCommit ((args e)\<lparr>queries := Some (makeQa (questions (args e)) ans)\<rparr>)))"
proof -
  let ?qs = "questions (args e)"
  let ?args' = "(args e)\<lparr>queries := Some (makeQa ?qs ans)\<rparr>"
  let ?before = "[CallDescribeJson url (image_prompt ext (agent e) ?qs) tok,
                  ConsoleLog ?qs ans, SetQueries (makeQa ?qs ans), CallCommit ?args']"
  from assms(4) have "describe spec = image_describe"
    by (rule route_some_describe)
  with assms(5) have described: "described = [CallDescribeJson url (image_prompt ext (agent e) ?qs) tok]"
    by (simp add: image_describe_events)
  show ?thesis
  proof (cases "commit e ?args'")
    case None
    from handler_resumes [OF assms None] described
    have ev: "events (handler ext msgs tok e) =
        ?before @ [AgentAct (Some (resume_message ext att (makeQa ?qs ans)))
                     (Some \<lparr>excludeActions = [''mediaPerception'']\<rparr>)]"
      and th: "thrown (handler ext msgs tok e) = None"
      by simp_all
    have order: "\<forall>i < length (events (handler ext msgs tok e)).
            is_act (events (handler ext msgs tok e) ! i) \<longrightarrow>
              (\<exists>j < i. events (handler ext msgs tok e) ! j = CallCommit ?args')"
    proof (intro allI impI)
      fix i
      assume "i < length (events (handler ext msgs tok e))"
        and act: "is_act (events (handler ext msgs tok e) ! i)"
      with ev have "i < 5" by simp
      then consider "i = 0" | "i = 1" | "i = 2" | "i = 3" | "i = 4"
        by linarith
      then have "i = 4"
        using act ev by cases simp_all
      with ev have "3 < i \<and> events (handler ext msgs tok e) ! 3 = CallCommit ?args'"
        by simp
      then show "\<exists>j < i. events (handler ext msgs tok e) ! j = CallCommit ?args'"
        by blast
    qed
    from None ev th order show ?thesis
      by simp
  next
    case (Some err)
    from handler_commit_rejects [OF assms Some] described
    have ev: "events (handler ext msgs tok e) = ?before"
      and th: "thrown (handler ext msgs tok e) = Some err"
      by simp_all
    have noact: "\<forall>i < length (events (handler ext msgs tok e)).
                   \<not> is_act (events (handler ext msgs tok e) ! i)"
    proof (intro allI impI)
      fix i
      assume "i < length (events (handler ext msgs tok e))"
      with ev have "i < 4" by simp
      then consider "i = 0" | "i = 1" | "i = 2" | "i = 3"
        by linarith
      then show "\<not> is_act (events (handler ext msgs tok e) ! i)"
        using ev by cases simp_all
    qed
    from Some ev th noact show ?thesis
      by simp
  qed
qed

theorem commit_completes_before_resume_witness:
  "length (events (handler (scenario_externals (Inr \<lparr>answers = [''A cat on a mat.'']\<rparr>))
      scenario_messages ''jwt'' (scenario_event ''a1'' None))) = 5 \<and>
   events (handler (scenario_externals (Inr \<lparr>answers = [''A cat on a mat.'']\<rparr>))
      scenario_messages ''jwt'' (scenario_event ''a1'' None)) ! 3 =
     CallCommit \<lparr>args_id = ''a1'', questions = [''Describe the image.''],
       queries = Some [\<lparr>qa_q = ''Describe the image.'', qa_a = Some ''A cat on a mat.''\<rparr>]\<rparr> \<and>
   is_act (events (handler (scenario_externals (Inr \<lparr>answers = [''A cat on a mat.'']\<rparr>))
      scenario_messages ''jwt'' (scenario_event ''a1'' None)) ! 4) \<and>
   filter is_act (events (handler (scenario_externals (Inr \<lparr>answers = [''A cat on a mat.'']\<rparr>))
      scenario_messages ''jwt'' (scenario_event ''a1'' (Some (Error ''disk full''))))) = [] \<and>
   thrown (handler (scenario_externals (Inr \<lparr>answers = [''A cat on a mat.'']\<rparr>))
      scenario_messages ''jwt'' (scenario_event ''a1'' (Some (Error ''disk full'')))) =
     Some (Error ''disk full'')"
proof -
  let ?ext = "scenario_externals (Inr \<lparr>answers = [''A cat on a mat.'']\<rparr>)"
  have described: "\<And>c. describe
       \<lparr>types = [''image/jpeg'', ''image/png'', ''image/webp''], describe = image_describe\<rparr>
       ?ext ''http://x/1.png'' (questions (args (scenario_event ''a1'' c)))
       (agent (scenario_event ''a1'' c)) ''jwt'' =
     ([CallDescribeJson ''http://x/1.png''
         (image_prompt ?ext (agent (scenario_event ''a1'' c))
            (questions (args (scenario_event ''a1'' c)))) ''jwt''],
      Inr [''A cat on a mat.''])"
    by (simp add: scenario_describe)
  from commit_completes_before_resume
         [OF scenario_resolves scenario_url scenario_route described, of None]
       commit_completes_before_resume
         [OF scenario_resolves scenario_url scenario_route described, of "Some (Error ''disk full'')"]
  show ?thesis
    by (simp add: scenario_event_def makeQa_def js_index_def)
qed

text \<open>
  Claim C3. For the handler of a rendered action, in a successful invocation every
  \<open>agent.act\<close> call carries a context message and options whose \<open>excludeActions\<close>
  contains the type of that action; when commit resolves the call is made, as the last
  effect, with \<open>excludeActions = ["mediaPerception"]\<close>, which is the rendered type.
\<close>

theorem resume_excludes_own_action:
  assumes "VideoPerceptionInner ext ca conv tok rid = RenderAction act"
    and "find (\<lambda>a. att_id a = args_id (args e)) (handler_attachments msgs) = Some att"
    and "att_url att = Some url" and "url \<noteq> []"
    and "find (\<lambda>spec. att_type att \<in> set (types spec)) videoPerceptionSpecs = Some spec"
    and "describe spec ext url (questions (args e)) (agent e) tok = (described, Inr ans)"
  shows "(\<forall>ev \<in> set (events (action_handler act msgs e)).
            is_act ev \<longrightarrow>
              (\<exists>m opts. ev = AgentAct (Some m) (Some opts) \<and>
                 action_type act \<in> set (excludeActions opts))) \<and>
         (commit e ((args e)\<lparr>queries := Some (makeQa (questions (args e)) ans)\<rparr>) = None \<longrightarrow>
            (\<exists>m opts. last (events (action_handler act msgs e)) = AgentAct (Some m) (Some opts) \<and>
               excludeActions opts = [''mediaPerception''] \<and>
               action_type act \<in> set (excludeActions opts)))"
proof -
  let ?qs = "questions (args e)"
  let ?args' = "(args e)\<lparr>queries := Some (makeQa ?qs ans)\<rparr>"
  from assms(1) have ty: "action_type act = ''mediaPerception''"
    and run: "action_handler act msgs e = handler ext msgs tok e"
    by (simp_all add: rendered_action)
  from assms(5) have "describe spec = image_describe"
    by (rule route_some_describe)
  with assms(6) have described: "described = [CallDescribeJson url (image_prompt ext (agent e) ?qs) tok]"
    by (simp add: image_describe_events)
  show ?thesis
  proof (cases "commit e ?args'")
    case None
    from handler_resumes [OF assms(2-6) None] described run ty None
    show ?thesis by simp
  next
    case (Some err)
    from handler_commit_rejects [OF assms(2-6) Some] described run ty Some
    show ?thesis by simp
  qed
qed

theorem resume_excludes_own_action_witness:
  "(\<exists>m. last (events (handler (scenario_externals (Inr \<lparr>answers = [''A cat on a mat.'']\<rparr>))
      scenario_messages ''jwt'' (scenario_event ''a1'' None))) =
      AgentAct (Some m) (Some \<lparr>excludeActions = [''mediaPerception'']\<rparr>)) \<and>
   (\<exists>act. VideoPerceptionInner (scenario_externals (Inr \<lparr>answers = [''A cat on a mat.'']\<rparr>))
      handler_attachments (Some scenario_messages) ''jwt'' ''r1'' = RenderAction act \<and>
      action_type act = ''mediaPerception'')"
proof -
  let ?ext = "scenario_externals (Inr \<lparr>answers = [''A cat on a mat.'']\<rparr>)"
  have "scenario_attachment \<in> set (handler_attachments scenario_messages)"
    and "typeClean (att_type scenario_attachment) \<in> set supportedVideoPerceptionTypes"
    by (simp_all add: scenario_messages_def scenario_attachment_def typeClean_def supported_types)
  then obtain act where
    act: "VideoPerceptionInner ?ext handler_attachments (Some scenario_messages) ''jwt'' ''r1''
            = RenderAction act"
    using render_lists [of scenario_attachment handler_attachments scenario_messages ?ext "''jwt''" "''r1''"]
    by blast
  have described: "describe
       \<lparr>types = [''image/jpeg'', ''image/png'', ''image/webp''], describe = image_describe\<rparr>
       ?ext ''http://x/1.png'' (questions (args (scenario_event ''a1'' None)))
       (agent (scenario_event ''a1'' None)) ''jwt'' =
     ([CallDescribeJson ''http://x/1.png''
         (image_prompt ?ext (agent (scenario_event ''a1'' None))
            (questions (args (scenario_event ''a1'' None)))) ''jwt''],
      Inr [''A cat on a mat.''])"
    by (simp add: scenario_describe)
  have committed: "commit (scenario_event ''a1'' None)
      ((args (scenario_event ''a1'' None))
         \<lparr>queries := Some (makeQa (questions (args (scenario_event ''a1'' None)))
                               [''A cat on a mat.''])\<rparr>) = None"
    by (simp add: scenario_event_def)
  from resume_excludes_own_action
         [OF act scenario_resolves scenario_url scenario_route described]
       committed rendered_action(1,2) [OF act] act
  show ?thesis
    by auto
qed

section \<open>Backend failure and the availability filter\<close>

text \<open>
  Claim C4. When \<open>describeJson\<close> rejects, the spec's \<open>describe\<close> rejects with the same
  error, and so does the handler: after the backend call it performs nothing more, so
  there is no assignment to the message arguments (they are as before), no commit and
  no \<open>agent.act\<close> call, neither a retry nor a resumption.
\<close>

theorem backend_error_propagates:
  assumes "find (\<lambda>a. att_id a = args_id (args e)) (handler_attachments msgs) = Some att"
    and "att_url att = Some url" and "url \<noteq> []"
    and "find (\<lambda>spec. att_type att \<in> set (types spec)) videoPerceptionSpecs = Some spec"
    and "describeJson ext url (image_prompt ext (agent e) (questions (args e))) tok = Inl err"
  shows "describe spec ext url (questions (args e)) (agent e) tok =
           ([CallDescribeJson url (image_prompt ext (agent e) (questions (args e))) tok],
            Inl err) \<and>
         handler ext msgs tok e =
           \<lparr>events = [CallDescribeJson url (image_prompt ext (agent e) (questions (args e))) tok],
            final_args = args e, thrown = Some err\<rparr> \<and>
         filter is_mutation (events (handler ext msgs tok e)) = [] \<and>
         filter is_commit (events (handler ext msgs tok e)) = [] \<and>
         filter is_act (events (handler ext msgs tok e)) = []"
proof -
  let ?call = "CallDescribeJson url (image_prompt ext (agent e) (questions (args e))) tok"
  from assms(4) have "describe spec = image_describe"
    by (rule route_some_describe)
  with assms(5)
  have rejected: "describe spec ext url (questions (args e)) (agent e) tok = ([?call], Inl err)"
    by (simp add: image_describe_def Let_def)
  from handler_describe_rejects [OF assms(1-4) rejected]
  have "handler ext msgs tok e = \<lparr>events = [?call], final_args = args e, thrown = Some err\<rparr>" .
  with rejected show ?thesis
    by simp
qed

theorem backend_error_propagates_witness:
  "handler (scenario_externals (Inl (Error ''503''))) scenario_messages ''jwt''
     (scenario_event ''a1'' None) =
     \<lparr>events = [CallDescribeJson ''http://x/1.png''
         (image_prompt (scenario_externals (Inl (Error ''503'')))
            \<lparr>name = ''Ann'', bio = ''A painter.''\<rparr> [''Describe the image.'']) ''jwt''],
      final_args = \<lparr>args_id = ''a1'', questions = [''Describe the image.''], queries = None\<rparr>,
      thrown = Some (Error ''503'')\<rparr>"
proof -
  let ?ext = "scenario_externals (Inl (Error ''503''))"
  let ?e = "scenario_event ''a1'' None"
  have rejects: "describeJson ?ext ''http://x/1.png''
      (image_prompt ?ext (agent ?e) (questions (args ?e))) ''jwt'' = Inl (Error ''503'')"
    by (simp add: scenario_externals_def)
  from backend_error_propagates [OF scenario_resolves scenario_url scenario_route rejects]
  show ?thesis
    by (simp add: scenario_event_def)
qed

text \<open>
  Claim C6. The availability filter tests the type with everything from its first
  \<open>+\<close> onward removed (a type without \<open>+\<close> is tested as it is), so
  \<open>image/jpeg+foo\<close> is tested as \<open>image/jpeg\<close>; the rendered action lists exactly
  the collected attachments that pass the test, and an attachment of type
  \<open>image/jpeg+foo\<close> is listed unchanged, with its original type.
\<close>

theorem availability_filter_strips_suffix:
  "(CHR ''+'' \<notin> set base \<longrightarrow> typeClean (base @ CHR ''+'' # suffix) = base) \<and>
   (CHR ''+'' \<notin> set t \<longrightarrow> typeClean t = t) \<and>
   typeClean ''image/jpeg+foo'' = ''image/jpeg'' \<and>
   (\<forall>act. VideoPerceptionInner ext ca (Some msgs) tok rid = RenderAction act \<longrightarrow>
      media act = filter (\<lambda>a. typeClean (att_type a) \<in> set supportedVideoPerceptionTypes)
                    (ca msgs)) \<and>
   (a \<in> set (ca msgs) \<and> att_type a = ''image/jpeg+foo'' \<longrightarrow>
      (\<exists>act. VideoPerceptionInner ext ca (Some msgs) tok rid = RenderAction act \<and>
         (\<exists>x \<in> set (media act). x = a \<and> att_type x = ''image/jpeg+foo'')))"
proof (intro conjI impI allI)
  show "typeClean ''image/jpeg+foo'' = ''image/jpeg''"
    by (simp add: typeClean_def)
next
  assume "CHR ''+'' \<notin> set base"
  then show "typeClean (base @ CHR ''+'' # suffix) = base"
    by (rule typeClean_suffix)
next
  assume "CHR ''+'' \<notin> set t"
  then show "typeClean t = t"
    by (auto simp add: typeClean_def takeWhile_eq_all_conv)
next
  fix act
  assume "VideoPerceptionInner ext ca (Some msgs) tok rid = RenderAction act"
  from rendered_action(3) [OF this]
  show "media act = filter (\<lambda>a. typeClean (att_type a) \<in> set supportedVideoPerceptionTypes)
                      (ca msgs)"
    by simp
next
  assume a: "a \<in> set (ca msgs) \<and> att_type a = ''image/jpeg+foo''"
  then have "typeClean (att_type a) \<in> set supportedVideoPerceptionTypes"
    by (simp add: typeClean_def supported_types)
  with a render_lists [of a ca msgs ext tok rid]
  show "\<exists>act. VideoPerceptionInner ext ca (Some msgs) tok rid = RenderAction act \<and>
         (\<exists>x \<in> set (media act). x = a \<and> att_type x = ''image/jpeg+foo'')"
    by auto
qed

theorem availability_filter_strips_suffix_witness:
  "typeClean (''image/webp'' @ CHR ''+'' # ''xml+zip'') = ''image/webp'' \<and>
   typeClean ''image/png'' = ''image/png'' \<and>
   (\<exists>act. VideoPerceptionInner (scenario_externals (Inl (Error ''503''))) handler_attachments
      (Some [\<lparr>attachments = Some [scenario_attachment\<lparr>att_type := ''image/jpeg+foo''\<rparr>,
                                   scenario_attachment\<lparr>att_type := ''video/mp4''\<rparr>]\<rparr>])
      ''jwt'' ''r1'' = RenderAction act \<and>
      media act = [\<lparr>att_id = ''a1'', att_type = ''image/jpeg+foo'',
                     att_url = Some ''http://x/1.png''\<rparr>])"
proof -
  let ?a = "scenario_attachment\<lparr>att_type := ''image/jpeg+foo''\<rparr>"
  let ?msgs = "[\<lparr>attachments = Some [?a, scenario_attachment\<lparr>att_type := ''video/mp4''\<rparr>]\<rparr>]"
  let ?ext = "scenario_externals (Inl (Error ''503''))"
  have listed: "?a \<in> set (handler_attachments ?msgs) \<and> att_type ?a = ''image/jpeg+foo''"
    by simp
  have base: "CHR ''+'' \<notin> set ''image/webp''" and whole: "CHR ''+'' \<notin> set ''image/png''"
    by simp_all
  from availability_filter_strips_suffix
         [of "''image/webp''" "''xml+zip''" "''image/png''" ?ext handler_attachments ?msgs
             "''jwt''" "''r1''" ?a]
       listed base whole
  have "typeClean (''image/webp'' @ CHR ''+'' # ''xml+zip'') = ''image/webp''"
    and "typeClean ''image/png'' = ''image/png''"
    and "\<exists>act. VideoPerceptionInner ?ext handler_attachments (Some ?msgs) ''jwt'' ''r1''
           = RenderAction act \<and>
           media act = filter (\<lambda>a. typeClean (att_type a) \<in> set supportedVideoPerceptionTypes)
                         (handler_attachments ?msgs)"
    by blast+
  then show ?thesis
    by (simp add: typeClean_def supported_types scenario_attachment_def)
qed

section \<open>The end-to-end scenario and suffixed types\<close>

text \<open>
  Claim C7. The scenario of the specification, for any \<open>dedent\<close>, persona and token:
  the backend is called with the url of the attachment, the arguments handed to commit
  and left behind carry \<open>queries = [{q: "Describe the image.", a: "A cat on a mat."}]\<close>,
  and \<open>agent.act\<close> is called with the dedented template, a newline and the JSON text
  of an object that holds the pair under the key \<open>0\<close> and \<open>attachmentId: "a1"\<close>,
  excluding \<open>mediaPerception\<close>.
\<close>

theorem end_to_end_scenario:
  "handler
     \<lparr>dedent = d, describeJson = (\<lambda>url prompt jwt. Inr \<lparr>answers = [''A cat on a mat.'']\<rparr>)\<rparr>
     [\<lparr>attachments = Some [\<lparr>att_id = ''a1'', att_type = ''image/png'',
                              att_url = Some ''http://x/1.png''\<rparr>]\<rparr>]
     tok
     \<lparr>agent = ag,
      args = \<lparr>args_id = ''a1'', questions = [''Describe the image.''], queries = None\<rparr>,
      commit = (\<lambda>a. None)\<rparr> =
   \<lparr>events =
      [CallDescribeJson ''http://x/1.png''
         (image_prompt
            \<lparr>dedent = d,
             describeJson = (\<lambda>url prompt jwt. Inr \<lparr>answers = [''A cat on a mat.'']\<rparr>)\<rparr>
            ag [''Describe the image.''])
         tok,
       ConsoleLog [''Describe the image.''] [''A cat on a mat.''],
       SetQueries [\<lparr>qa_q = ''Describe the image.'', qa_a = Some ''A cat on a mat.''\<rparr>],
       CallCommit
         \<lparr>args_id = ''a1'', questions = [''Describe the image.''],
          queries = Some [\<lparr>qa_q = ''Describe the image.'', qa_a = Some ''A cat on a mat.''\<rparr>]\<rparr>,
       AgentAct
         (Some (d [[CHR 0x5C] @ ''\<newline>                    Your character looked at an attachment and discovered the following:\<newline>                  ''] []
                @ [CHR 0x0A]
                @ ''{\<newline>  '' @ [CHR 0x22] @ ''0'' @ [CHR 0x22] @ '': {\<newline>    ''
                @ [CHR 0x22] @ ''q'' @ [CHR 0x22] @ '': ''
                @ [CHR 0x22] @ ''Describe the image.'' @ [CHR 0x22] @ '',\<newline>    ''
                @ [CHR 0x22] @ ''a'' @ [CHR 0x22] @ '': ''
                @ [CHR 0x22] @ ''A cat on a mat.'' @ [CHR 0x22] @ ''\<newline>  },\<newline>  ''
                @ [CHR 0x22] @ ''attachmentId'' @ [CHR 0x22] @ '': ''
                @ [CHR 0x22] @ ''a1'' @ [CHR 0x22] @ ''\<newline>}''))
         (Some \<lparr>excludeActions = [''mediaPerception'']\<rparr>)],
    final_args =
      \<lparr>args_id = ''a1'', questions = [''Describe the image.''],
       queries = Some [\<lparr>qa_q = ''Describe the image.'', qa_a = Some ''A cat on a mat.''\<rparr>]\<rparr>,
    thrown = None\<rparr>"
proof -
  have qa: "makeQa [''Describe the image.''] [''A cat on a mat.''] =
              [\<lparr>qa_q = ''Describe the image.'', qa_a = Some ''A cat on a mat.''\<rparr>]"
    by (simp add: makeQa_def js_index_def)
  have entries: "array_entries [x] = [(''0'', x)]" for x
    by (simp add: array_entries_def digits.simps)
  have serialised: "JSON_stringify2
      (JObject [(''0'', JObject [(''q'', JString ''Describe the image.''),
                                 (''a'', JString ''A cat on a mat.'')]),
                (''attachmentId'', JString ''a1'')]) =
      ''{\<newline>  '' @ [CHR 0x22] @ ''0'' @ [CHR 0x22] @ '': {\<newline>    ''
                @ [CHR 0x22] @ ''q'' @ [CHR 0x22] @ '': ''
                @ [CHR 0x22] @ ''Describe the image.'' @ [CHR 0x22] @ '',\<newline>    ''
                @ [CHR 0x22] @ ''a'' @ [CHR 0x22] @ '': ''
                @ [CHR 0x22] @ ''A cat on a mat.'' @ [CHR 0x22] @ ''\<newline>  },\<newline>  ''
                @ [CHR 0x22] @ ''attachmentId'' @ [CHR 0x22] @ '': ''
                @ [CHR 0x22] @ ''a1'' @ [CHR 0x22] @ ''\<newline>}''"
    by (simp add: JSON_stringify2_def QuoteJSONString_def escape_char_def)
  show ?thesis
    by (simp add: handler_def Let_def videoPerceptionSpecs_def image_describe_def qa
        resume_message_def qa_json_def entries serialised)
qed

text \<open>
  Claim C10. The handler routes on the type as stored. For an attachment whose type is
  a supported type followed by \<open>+\<close> and a suffix: if it is among the collected
  attachments, the rendered action lists it; no registered spec contains its type; and
  a request that resolves to it ends in a warning followed by \<open>agent.act()\<close> without
  arguments, with no backend call (when it has a url, the warning is the one of the
  missing spec).
\<close>

theorem suffixed_type_advertised_but_not_routed:
  assumes "base \<in> set supportedVideoPerceptionTypes"
    and "att_type a = base @ CHR ''+'' # suffix"
  shows "(a \<in> set (ca msgs) \<longrightarrow>
            (\<exists>act. VideoPerceptionInner ext ca (Some msgs) tok rid = RenderAction act \<and>
                   a \<in> set (media act))) \<and>
         find (\<lambda>spec. att_type a \<in> set (types spec)) videoPerceptionSpecs = None \<and>
         (find (\<lambda>x. att_id x = args_id (args e)) (handler_attachments msgs') = Some a \<longrightarrow>
            (\<exists>w. events (handler ext msgs' tok e) = [ConsoleWarn w, AgentAct None None]) \<and>
            filter is_describe (events (handler ext msgs' tok e)) = [] \<and>
            (\<forall>url. att_url a = Some url \<and> url \<noteq> [] \<longrightarrow>
               events (handler ext msgs' tok e) =
                 [ConsoleWarn ''warning: no media perception spec found for type'',
                  AgentAct None None]))"
proof (intro conjI impI allI)
  from assms(1) have "CHR ''+'' \<notin> set base"
    by (rule supported_no_plus)
  with assms have clean: "typeClean (att_type a) \<in> set supportedVideoPerceptionTypes"
    by (simp add: typeClean_suffix)
  assume "a \<in> set (ca msgs)"
  with clean render_lists [of a ca msgs ext tok rid]
  show "\<exists>act. VideoPerceptionInner ext ca (Some msgs) tok rid = RenderAction act \<and>
          a \<in> set (media act)"
    by blast
next
  from assms(2) have "att_type a \<notin> set supportedVideoPerceptionTypes"
    by (simp add: suffixed_not_supported)
  then show unrouted: "find (\<lambda>spec. att_type a \<in> set (types spec)) videoPerceptionSpecs = None"
    by (rule route_none)
  assume found: "find (\<lambda>x. att_id x = args_id (args e)) (handler_attachments msgs') = Some a"
  have shape: "(\<exists>w. events (handler ext msgs' tok e) = [ConsoleWarn w, AgentAct None None]) \<and>
        (\<forall>url. att_url a = Some url \<and> url \<noteq> [] \<longrightarrow>
           events (handler ext msgs' tok e) =
             [ConsoleWarn ''warning: no media perception spec found for type'',
              AgentAct None None])"
  proof (cases "att_url a = None \<or> att_url a = Some []")
    case True
    from handler_no_url [OF found True, of ext tok] True show ?thesis
      by (auto simp add: retry_def)
  next
    case False
    then obtain url where url: "att_url a = Some url" "url \<noteq> []"
      by auto
    from handler_no_spec [OF found url unrouted, of ext tok] url show ?thesis
      by (simp add: retry_def)
  qed
  from shape show "\<exists>w. events (handler ext msgs' tok e) = [ConsoleWarn w, AgentAct None None]"
    by blast
  from shape show "filter is_describe (events (handler ext msgs' tok e)) = []"
    by auto
  fix url
  assume "att_url a = Some url \<and> url \<noteq> []"
  with shape show "events (handler ext msgs' tok e) =
      [ConsoleWarn ''warning: no media perception spec found for type'', AgentAct None None]"
    by blast
qed

theorem suffixed_type_advertised_but_not_routed_witness:
  "(\<exists>act. VideoPerceptionInner (scenario_externals (Inr \<lparr>answers = [''A cat on a mat.'']\<rparr>))
      handler_attachments
      (Some [\<lparr>attachments = Some [scenario_attachment\<lparr>att_type := ''image/png+ext''\<rparr>]\<rparr>])
      ''jwt'' ''r1'' = RenderAction act \<and>
      scenario_attachment\<lparr>att_type := ''image/png+ext''\<rparr> \<in> set (media act)) \<and>
   find (\<lambda>spec. ''image/png+ext'' \<in> set (types spec)) videoPerceptionSpecs = None \<and>
   events (handler (scenario_externals (Inr \<lparr>answers = [''A cat on a mat.'']\<rparr>))
      [\<lparr>attachments = Some [scenario_attachment\<lparr>att_type := ''image/png+ext''\<rparr>]\<rparr>]
      ''jwt'' (scenario_event ''a1'' None)) =
     [ConsoleWarn ''warning: no media perception spec found for type'', AgentAct None None]"
proof -
  let ?a = "scenario_attachment\<lparr>att_type := ''image/png+ext''\<rparr>"
  let ?msgs = "[\<lparr>attachments = Some [?a]\<rparr>]"
  let ?ext = "scenario_externals (Inr \<lparr>answers = [''A cat on a mat.'']\<rparr>)"
  have base: "''image/png'' \<in> set supportedVideoPerceptionTypes"
    by (simp add: supported_types)
  have ty: "att_type ?a = ''image/png'' @ CHR ''+'' # ''ext''"
    by simp
  have listed: "?a \<in> set (handler_attachments ?msgs)"
    by simp
  have found: "find (\<lambda>x. att_id x = args_id (args (scenario_event ''a1'' None)))
                 (handler_attachments ?msgs) = Some ?a"
    by (simp add: scenario_attachment_def scenario_event_def)
  have url: "att_url ?a = Some ''http://x/1.png'' \<and> ''http://x/1.png'' \<noteq> []"
    by (simp add: scenario_attachment_def)
  from suffixed_type_advertised_but_not_routed
         [OF base ty, of handler_attachments ?msgs ?ext "''jwt''" "''r1''"
            "scenario_event ''a1'' None" ?msgs]
       listed found url
  have "\<exists>act. VideoPerceptionInner ?ext handler_attachments (Some ?msgs) ''jwt'' ''r1''
            = RenderAction act \<and> ?a \<in> set (media act)"
    and "find (\<lambda>spec. att_type ?a \<in> set (types spec)) videoPerceptionSpecs = None"
    and "events (handler ?ext ?msgs ''jwt'' (scenario_event ''a1'' None)) =
           [ConsoleWarn ''warning: no media perception spec found for type'', AgentAct None None]"
    by blast+
  then show ?thesis
    by simp
qed

end
